theory Spec2Isabelle
  imports Main "HOL-Library.Word"
begin

section \<open>The fx-logr adapter: lifecycle events to logr calls\<close>

text \<open>
  The repository is one Go file, \<^verbatim>\<open>logr.go\<close>: a type \<^verbatim>\<open>LogrLogger\<close> that
  implements \<^verbatim>\<open>fxevent.Logger\<close> by a type switch over the event and, in each branch,
  calls of \<^verbatim>\<open>l.Logger.V(level).Info\<close> or \<^verbatim>\<open>l.Logger.V(level).Error\<close>. A
  second, minimal implementation (\<^verbatim>\<open>unnamed/part_000\<close>) handles one event only.

  The model records the calls made on the logr logger, in order, and threads the receiver
  through every method, since all methods have pointer receivers.

  Scope of the model: the receiver, its \<^verbatim>\<open>Logger\<close> pointer and the event pointer are
  not nil (as \<^verbatim>\<open>WithLogr(&l)\<close> and fx produce them); what logr does with a call once it
  has received it (filtering by verbosity, rendering) is outside the repository.
\<close>

subsection \<open>Values that cross the interface\<close>

text \<open>A Go \<^verbatim>\<open>error\<close>: \<open>None\<close> is \<^verbatim>\<open>nil\<close>, \<open>Some m\<close> an error whose text is \<open>m\<close>.\<close>

type_synonym error = "string option"

text \<open>The \<^verbatim>\<open>interface{}\<close> values the adapter passes in \<^verbatim>\<open>keysAndValues\<close>.\<close>

datatype any = Str string | Bool bool

text \<open>\<^verbatim>\<open>time.Duration\<close> is an \<^verbatim>\<open>int64\<close> count of nanoseconds.\<close>

type_synonym Duration = "64 word"

definition Millisecond :: Duration where
  "Millisecond = 1000000"

text \<open>
  \<^verbatim>\<open>os.Signal\<close> is an interface; the adapter only calls its \<^verbatim>\<open>String\<close> method, so
  a signal is represented by what that method returns.
\<close>

datatype Signal = os_Signal (Signal_String: string)

text \<open>
  The two standard-library functions the adapter calls, \<^verbatim>\<open>time.Duration.String\<close> and
  \<^verbatim>\<open>strings.ToUpper\<close>, are not part of the repository: they are parameters.
\<close>

record stdlib =
  Duration_String :: "Duration \<Rightarrow> string"
  ToUpper :: "string \<Rightarrow> string"

text \<open>
  A call received by the logr logger: \<^verbatim>\<open>V(level).Info(msg, keysAndValues...)\<close> or
  \<^verbatim>\<open>V(level).Error(err, msg, keysAndValues...)\<close>. The level is the argument of
  \<^verbatim>\<open>V\<close>, a verbosity relative to the logger; a call made without \<^verbatim>\<open>V\<close> is at
  relative verbosity 0. \<^verbatim>\<open>keysAndValues\<close> is the flat variadic list, keys at the
  even positions.
\<close>

datatype call =
  Info int string "any list"
| Error int error string "any list"

fun call_level :: "call \<Rightarrow> int" where
  "call_level (Info v msg kvs) = v"
| "call_level (Error v err msg kvs) = v"

fun call_msg :: "call \<Rightarrow> string" where
  "call_msg (Info v msg kvs) = msg"
| "call_msg (Error v err msg kvs) = msg"

fun call_fields :: "call \<Rightarrow> any list" where
  "call_fields (Info v msg kvs) = kvs"
| "call_fields (Error v err msg kvs) = kvs"

text \<open>A call passes a cause when it is a call of the \<^verbatim>\<open>Error\<close> operation.\<close>

fun passes_cause :: "call \<Rightarrow> bool" where
  "passes_cause (Info v msg kvs) = False"
| "passes_cause (Error v err msg kvs) = True"

text \<open>The keys of a flat key/value list, and the value that follows a key.\<close>

fun keys :: "any list \<Rightarrow> any list" where
  "keys (k # v # rest) = k # keys rest"
| "keys [k] = [k]"
| "keys [] = []"

fun field :: "any \<Rightarrow> any list \<Rightarrow> any option" where
  "field x (k # v # rest) = (if k = x then Some v else field x rest)"
| "field x [k] = None"
| "field x [] = None"

subsection \<open>Events\<close>

text \<open>
  The structs of \<^verbatim>\<open>go.uber.org/fx/fxevent\<close> that the type switch matches, with the
  fields the adapter reads. \<open>Unrecognized\<close> stands for every event that matches no case
  of the switch.
\<close>

datatype Event =
  OnStartExecuting (FunctionName: string) (CallerName: string)
| OnStartExecuted (FunctionName: string) (CallerName: string) (Runtime: Duration) (Err: error)
| OnStopExecuting (FunctionName: string) (CallerName: string)
| OnStopExecuted (FunctionName: string) (CallerName: string) (Runtime: Duration) (Err: error)
| Supplied (TypeName: string) (ModuleName: string) (Err: error)
| Provided (ConstructorName: string) (OutputTypeNames: "string list") (ModuleName: string)
    (Err: error) (Private: bool)
| Replaced (OutputTypeNames: "string list") (ModuleName: string) (Err: error)
| Decorated (DecoratorName: string) (ModuleName: string) (OutputTypeNames: "string list")
    (Err: error)
| Invoking (FunctionName: string) (ModuleName: string)
| Invoked (FunctionName: string) (ModuleName: string) (Err: error) (Trace: string)
| Stopping (Signal: Signal)
| Stopped (Err: error)
| RollingBack (StartErr: error)
| RolledBack (Err: error)
| Started (Err: error)
| LoggerInitialized (Err: error) (ConstructorName: string)
| Unrecognized

subsection \<open>The logger and its methods\<close>

text \<open>A logr logger is identified by a handle; the adapter never looks inside it.\<close>

type_synonym logr_Logger = nat

record LogrLogger =
  Logger :: logr_Logger
  logLevel :: int
  errorLevel :: int

text \<open>
  The state a method runs in: the receiver, and the calls the logr logger has received
  so far.
\<close>

record 'l state =
  self :: 'l
  sunk :: "call list"

definition UseLogLevel :: "int \<Rightarrow> LogrLogger state \<Rightarrow> LogrLogger state" where
  "UseLogLevel level s = s\<lparr>self := (self s)\<lparr>logLevel := level\<rparr>\<rparr>"

definition UseErrorLevel :: "int \<Rightarrow> LogrLogger state \<Rightarrow> LogrLogger state" where
  "UseErrorLevel level s = s\<lparr>self := (self s)\<lparr>errorLevel := level\<rparr>\<rparr>"

definition logEvent :: "string \<Rightarrow> any list \<Rightarrow> LogrLogger state \<Rightarrow> LogrLogger state" where
  "logEvent msg keysAndValues s =
     s\<lparr>sunk := sunk s @ [Info (logLevel (self s)) msg keysAndValues]\<rparr>"

definition logError ::
  "error \<Rightarrow> string \<Rightarrow> any list \<Rightarrow> LogrLogger state \<Rightarrow> LogrLogger state" where
  "logError err msg keysAndValues s =
     s\<lparr>sunk := sunk s @ [Error (errorLevel (self s)) err msg keysAndValues]\<rparr>"

text \<open>
  \<^verbatim>\<open>LogEvent\<close>, branch by branch as the switch has them. A \<^verbatim>\<open>for ... range\<close> over
  the output types is a \<open>fold\<close> of the loop body over the list.
\<close>

fun LogEvent :: "stdlib \<Rightarrow> Event \<Rightarrow> LogrLogger state \<Rightarrow> LogrLogger state" where
  "LogEvent lib (OnStartExecuting fn cn) s =
     logEvent ''OnStart hook executing'' [Str ''callee'', Str fn, Str ''caller'', Str cn] s"
| "LogEvent lib (OnStartExecuted fn cn rt err) s =
     (if err \<noteq> None then
        logError err ''OnStart hook failed'' [Str ''callee'', Str fn, Str ''caller'', Str cn] s
      else
        logEvent ''OnStart hook executed''
          [Str ''callee'', Str fn, Str ''caller'', Str cn,
           Str ''runtime'', Str (Duration_String lib rt)] s)"
| "LogEvent lib (OnStopExecuting fn cn) s =
     logEvent ''OnStop hook executing'' [Str ''callee'', Str fn, Str ''caller'', Str cn] s"
| "LogEvent lib (OnStopExecuted fn cn rt err) s =
     (if err \<noteq> None then
        logError err ''OnStop hook failed'' [Str ''callee'', Str fn, Str ''caller'', Str cn] s
      else
        logEvent ''OnStop hook executed''
          [Str ''callee'', Str fn, Str ''caller'', Str cn,
           Str ''runtime'', Str (Duration_String lib rt)] s)"
| "LogEvent lib (Supplied tn m err) s =
     (if length m \<noteq> 0 then
        (if err \<noteq> None then
           logError err ''error encountered while applying options''
             [Str ''type'', Str tn, Str ''module'', Str m] s
         else
           logEvent ''supplied'' [Str ''type'', Str tn, Str ''module'', Str m] s)
      else
        (if err \<noteq> None then
           logError err ''error encountered while applying options'' [Str ''type'', Str tn] s
         else
           logEvent ''supplied'' [Str ''type'', Str tn] s))"
| "LogEvent lib (Provided c ts m err p) s =
     (if length m \<noteq> 0 then
        (let s1 = fold (\<lambda>rtype.
                     if p then
                       logEvent ''provided''
                         [Str ''constructor'', Str c, Str ''module'', Str m,
                          Str ''type'', Str rtype, Str ''private'', Bool True]
                     else
                       logEvent ''provided''
                         [Str ''constructor'', Str c, Str ''module'', Str m,
                          Str ''type'', Str rtype]) ts s
         in if err \<noteq> None then
              logError err ''error encountered while applying options''
                [Str ''module'', Str m] s1
            else s1)
      else
        (let s1 = fold (\<lambda>rtype.
                     if p then
                       logEvent ''provided''
                         [Str ''constructor'', Str c, Str ''type'', Str rtype,
                          Str ''private'', Bool True]
                     else
                       logEvent ''provided''
                         [Str ''constructor'', Str c, Str ''type'', Str rtype]) ts s
         in if err \<noteq> None then
              logError err ''error encountered while applying options'' [] s1
            else s1))"
| "LogEvent lib (Replaced ts m err) s =
     (if length m \<noteq> 0 then
        (let s1 = fold (\<lambda>rtype.
                     logEvent ''replaced'' [Str ''module'', Str m, Str ''type'', Str rtype]) ts s
         in if err \<noteq> None then
              logError err ''error encountered while replacing'' [Str ''module'', Str m] s1
            else s1)
      else
        (let s1 = fold (\<lambda>rtype. logEvent ''replaced'' [Str ''type'', Str rtype]) ts s
         in if err \<noteq> None then
              logError err ''error encountered while replacing'' [] s1
            else s1))"
| "LogEvent lib (Decorated d m ts err) s =
     (if length m \<noteq> 0 then
        (let s1 = fold (\<lambda>rtype.
                     logEvent ''decorated''
                       [Str ''decorator'', Str d, Str ''module'', Str m,
                        Str ''type'', Str rtype]) ts s
         in if err \<noteq> None then
              logError err ''error encountered while applying options''
                [Str ''module'', Str m] s1
            else s1)
      else
        (let s1 = fold (\<lambda>rtype.
                     logEvent ''decorated''
                       [Str ''decorator'', Str d, Str ''type'', Str rtype]) ts s
         in if err \<noteq> None then
              logError err ''error encountered while applying options'' [] s1
            else s1))"
| "LogEvent lib (Invoking fn m) s =
     (if length m \<noteq> 0 then
        logEvent ''invoking'' [Str ''function'', Str fn, Str ''module'', Str m] s
      else
        logEvent ''invoking'' [Str ''function'', Str fn] s)"
| "LogEvent lib (Invoked fn m err tr) s =
     (if length m \<noteq> 0 then
        (if err \<noteq> None then
           logError err ''invoke failed''
             [Str ''stack'', Str tr, Str ''function'', Str fn, Str ''module'', Str m] s
         else s)
      else
        (if err \<noteq> None then
           logError err ''invoke failed'' [Str ''stack'', Str tr, Str ''function'', Str fn] s
         else s))"
| "LogEvent lib (Stopping sig) s =
     logEvent ''received signal''
       [Str ''signal'', Str (ToUpper lib (Signal_String sig))] s"
| "LogEvent lib (Stopped err) s =
     (if err \<noteq> None then logError err ''stop failed'' [] s else s)"
| "LogEvent lib (RollingBack startErr) s =
     logError startErr ''start failed, rolling back'' [] s"
| "LogEvent lib (RolledBack err) s =
     (if err \<noteq> None then logError err ''rollback failed'' [] s else s)"
| "LogEvent lib (Started err) s =
     (if err \<noteq> None then logError err ''start failed'' [] s
      else logEvent ''started'' [] s)"
| "LogEvent lib (LoggerInitialized err c) s =
     (if err \<noteq> None then logError err ''custom logger initialization failed'' [] s
      else logEvent ''initialized custom fxevent.Logger'' [Str ''function'', Str c] s)"
| "LogEvent lib Unrecognized s = s"

text \<open>
  \<^verbatim>\<open>WithLogr\<close> returns a closure; each call of the closure builds a logger around the
  given pointer, the two levels at Go's zero value.
\<close>

definition WithLogr :: "logr_Logger \<Rightarrow> unit \<Rightarrow> LogrLogger" where
  "WithLogr l = (\<lambda>_. \<lparr>Logger = l, logLevel = 0, errorLevel = 0\<rparr>)"

text \<open>The calls one \<^verbatim>\<open>LogEvent\<close> makes: what it adds to an empty record of calls.\<close>

definition emitted :: "stdlib \<Rightarrow> LogrLogger \<Rightarrow> Event \<Rightarrow> call list" where
  "emitted lib l e = sunk (LogEvent lib e \<lparr>self = l, sunk = []\<rparr>)"

subsection \<open>The minimal implementation\<close>

text \<open>
  \<^verbatim>\<open>unnamed/part_000\<close>: the struct holds the logr logger by value and calls
  \<^verbatim>\<open>l.Logger.Info\<close> directly, without \<^verbatim>\<open>V\<close>.
\<close>

record logger =
  logger_Logger :: logr_Logger

fun logger_LogEvent :: "Event \<Rightarrow> logger state \<Rightarrow> logger state" where
  "logger_LogEvent (OnStartExecuting fn cn) s =
     s\<lparr>sunk := sunk s @
        [Info 0 ''OnStart hook executing'' [Str ''callee'', Str fn, Str ''caller'', Str cn]]\<rparr>"
| "logger_LogEvent e s = s"

definition logger_WithLogr :: "logr_Logger \<Rightarrow> unit \<Rightarrow> logger" where
  "logger_WithLogr l = (\<lambda>_. \<lparr>logger_Logger = l\<rparr>)"

definition logger_emitted :: "logger \<Rightarrow> Event \<Rightarrow> call list" where
  "logger_emitted l e = sunk (logger_LogEvent e \<lparr>self = l, sunk = []\<rparr>)"

subsection \<open>A library instance for concrete evaluation\<close>

text \<open>
  Closed instances need some value for the library parameter. This one answers as Go's
  library does on the inputs of the repository's test table (a runtime of three
  milliseconds, the signal name \<^verbatim>\<open>interrupt\<close>): ASCII letters are upper-cased, and the
  two durations of the table are rendered. No general theorem depends on it.
\<close>

definition ascii_upper :: "char \<Rightarrow> char" where
  "ascii_upper c =
     (let n = (of_char c :: nat) in if 97 \<le> n \<and> n \<le> 122 then char_of (n - 32) else c)"

definition table_Duration_String :: "Duration \<Rightarrow> string" where
  "table_Duration_String d = (if d = 3 * Millisecond then ''3ms'' else ''0s'')"

definition table_lib :: stdlib where
  "table_lib = \<lparr>Duration_String = table_Duration_String, ToUpper = map ascii_upper\<rparr>"

definition someError :: error where
  "someError = Some ''some error''"

text \<open>Sample inputs: events of the test table and small variations of them.\<close>

definition defaultLogger :: LogrLogger where
  "defaultLogger = WithLogr 0 ()"

definition leveledLogger :: LogrLogger where
  "leveledLogger =
     self (UseErrorLevel 2 (UseLogLevel 1 \<lparr>self = WithLogr 0 (), sunk = []\<rparr>))"

definition provideTwo :: Event where
  "provideTwo =
     Provided ''bytes.NewBuffer()'' [''*bytes.Buffer'', ''io.Reader''] ''myModule'' None False"

definition provideTwoFailed :: Event where
  "provideTwoFailed =
     Provided ''bytes.NewBuffer()'' [''*bytes.Buffer'', ''io.Reader''] ''myModule''
       someError True"

definition privateProvideFailed :: Event where
  "privateProvideFailed = Provided ''bytes.NewBuffer()'' [] ''myModule'' someError True"

definition providedBuffer :: call where
  "providedBuffer =
     Info 0 ''provided''
       [Str ''constructor'', Str ''bytes.NewBuffer()'', Str ''module'', Str ''myModule'',
        Str ''type'', Str ''*bytes.Buffer'', Str ''private'', Bool True]"

definition applyingOptionsFailed :: call where
  "applyingOptionsFailed =
     Error 0 someError ''error encountered while applying options''
       [Str ''module'', Str ''myModule'']"

section \<open>Properties\<close>

subsection \<open>The receiver and the record of calls\<close>

lemma logEvent_self: "self (logEvent msg kvs s) = self s"
  by (simp add: logEvent_def)

lemma logError_self: "self (logError err msg kvs s) = self s"
  by (simp add: logError_def)

lemma logEvent_sunk:
  "sunk (logEvent msg kvs s) = sunk s @ [Info (logLevel (self s)) msg kvs]"
  by (simp add: logEvent_def)

lemma logError_sunk:
  "sunk (logError err msg kvs s) = sunk s @ [Error (errorLevel (self s)) err msg kvs]"
  by (simp add: logError_def)

text \<open>The range loop: one informational call per entry, in order, receiver untouched.\<close>

lemma range_self: "self (fold (\<lambda>rtype. logEvent msg (f rtype)) ts s) = self s"
  by (induction ts arbitrary: s) (simp_all add: logEvent_self)

lemma range_sunk:
  "sunk (fold (\<lambda>rtype. logEvent msg (f rtype)) ts s) =
     sunk s @ map (\<lambda>rtype. Info (logLevel (self s)) msg (f rtype)) ts"
  by (induction ts arbitrary: s) (simp_all add: logEvent_self logEvent_sunk)

text \<open>The two bodies of the loop over a provided event differ in their fields only.\<close>

lemma provided_body_private:
  "(\<lambda>rtype. if p then logEvent msg (f rtype) else logEvent msg (g rtype)) =
   (\<lambda>rtype. logEvent msg (if p then f rtype else g rtype))"
  by (cases p) simp_all

lemma LogEvent_self: "self (LogEvent lib e s) = self s"
  by (cases e)
    (simp_all add: logEvent_self logError_self range_self provided_body_private Let_def)

subsection \<open>What each event emits\<close>

lemma emitted_hooks:
  "emitted lib l (OnStartExecuting fn cn) =
     [Info (logLevel l) ''OnStart hook executing''
        [Str ''callee'', Str fn, Str ''caller'', Str cn]]"
  "emitted lib l (OnStopExecuting fn cn) =
     [Info (logLevel l) ''OnStop hook executing''
        [Str ''callee'', Str fn, Str ''caller'', Str cn]]"
  "emitted lib l (OnStartExecuted fn cn rt err) =
     (if err \<noteq> None then
        [Error (errorLevel l) err ''OnStart hook failed''
           [Str ''callee'', Str fn, Str ''caller'', Str cn]]
      else
        [Info (logLevel l) ''OnStart hook executed''
           [Str ''callee'', Str fn, Str ''caller'', Str cn,
            Str ''runtime'', Str (Duration_String lib rt)]])"
  "emitted lib l (OnStopExecuted fn cn rt err) =
     (if err \<noteq> None then
        [Error (errorLevel l) err ''OnStop hook failed''
           [Str ''callee'', Str fn, Str ''caller'', Str cn]]
      else
        [Info (logLevel l) ''OnStop hook executed''
           [Str ''callee'', Str fn, Str ''caller'', Str cn,
            Str ''runtime'', Str (Duration_String lib rt)]])"
  by (simp_all add: emitted_def logEvent_sunk logError_sunk)

lemma emitted_Supplied:
  "emitted lib l (Supplied tn m err) =
     (if err \<noteq> None then
        [Error (errorLevel l) err ''error encountered while applying options''
           ([Str ''type'', Str tn] @ (if m \<noteq> [] then [Str ''module'', Str m] else []))]
      else
        [Info (logLevel l) ''supplied''
           ([Str ''type'', Str tn] @ (if m \<noteq> [] then [Str ''module'', Str m] else []))])"
  by (simp add: emitted_def logEvent_sunk logError_sunk)

lemma emitted_Provided:
  "emitted lib l (Provided c ts m err p) =
     map (\<lambda>rtype. Info (logLevel l) ''provided''
            ([Str ''constructor'', Str c] @ (if m \<noteq> [] then [Str ''module'', Str m] else [])
             @ [Str ''type'', Str rtype] @ (if p then [Str ''private'', Bool True] else []))) ts
     @ (if err \<noteq> None then
          [Error (errorLevel l) err ''error encountered while applying options''
             (if m \<noteq> [] then [Str ''module'', Str m] else [])]
        else [])"
  by (cases p)
    (simp_all add: emitted_def Let_def range_sunk range_self logError_sunk)

lemma emitted_Replaced:
  "emitted lib l (Replaced ts m err) =
     map (\<lambda>rtype. Info (logLevel l) ''replaced''
            ((if m \<noteq> [] then [Str ''module'', Str m] else []) @ [Str ''type'', Str rtype])) ts
     @ (if err \<noteq> None then
          [Error (errorLevel l) err ''error encountered while replacing''
             (if m \<noteq> [] then [Str ''module'', Str m] else [])]
        else [])"
  by (simp add: emitted_def Let_def range_sunk range_self logError_sunk)

lemma emitted_Decorated:
  "emitted lib l (Decorated d m ts err) =
     map (\<lambda>rtype. Info (logLevel l) ''decorated''
            ([Str ''decorator'', Str d] @ (if m \<noteq> [] then [Str ''module'', Str m] else [])
             @ [Str ''type'', Str rtype])) ts
     @ (if err \<noteq> None then
          [Error (errorLevel l) err ''error encountered while applying options''
             (if m \<noteq> [] then [Str ''module'', Str m] else [])]
        else [])"
  by (simp add: emitted_def Let_def range_sunk range_self logError_sunk)

lemma emitted_Invoking:
  "emitted lib l (Invoking fn m) =
     [Info (logLevel l) ''invoking''
        ([Str ''function'', Str fn] @ (if m \<noteq> [] then [Str ''module'', Str m] else []))]"
  by (simp add: emitted_def logEvent_sunk)

lemma emitted_Invoked:
  "emitted lib l (Invoked fn m err tr) =
     (if err \<noteq> None then
        [Error (errorLevel l) err ''invoke failed''
           ([Str ''stack'', Str tr, Str ''function'', Str fn]
            @ (if m \<noteq> [] then [Str ''module'', Str m] else []))]
      else [])"
  by (simp add: emitted_def logError_sunk)

lemma emitted_lifecycle:
  "emitted lib l (Stopping sig) =
     [Info (logLevel l) ''received signal''
        [Str ''signal'', Str (ToUpper lib (Signal_String sig))]]"
  "emitted lib l (Stopped err) =
     (if err \<noteq> None then [Error (errorLevel l) err ''stop failed'' []] else [])"
  "emitted lib l (RollingBack startErr) =
     [Error (errorLevel l) startErr ''start failed, rolling back'' []]"
  "emitted lib l (RolledBack err) =
     (if err \<noteq> None then [Error (errorLevel l) err ''rollback failed'' []] else [])"
  "emitted lib l (Started err) =
     (if err \<noteq> None then [Error (errorLevel l) err ''start failed'' []]
      else [Info (logLevel l) ''started'' []])"
  "emitted lib l (LoggerInitialized err c) =
     (if err \<noteq> None then
        [Error (errorLevel l) err ''custom logger initialization failed'' []]
      else [Info (logLevel l) ''initialized custom fxevent.Logger'' [Str ''function'', Str c]])"
  "emitted lib l Unrecognized = []"
  by (simp_all add: emitted_def logEvent_sunk logError_sunk)

lemmas emitted_eqs =
  emitted_hooks emitted_Supplied emitted_Provided emitted_Replaced emitted_Decorated
  emitted_Invoking emitted_Invoked emitted_lifecycle

text \<open>
  \<^verbatim>\<open>LogEvent\<close> only appends to the record of calls: whatever the logger had received
  before is still there, followed by what this event emits.
\<close>

lemma LogEvent_sunk: "sunk (LogEvent lib e s) = sunk s @ emitted lib (self s) e"
  by (cases e)
    (simp_all add: emitted_def logEvent_sunk logError_sunk range_sunk range_self
       provided_body_private Let_def)

lemmas sample_defs =
  defaultLogger_def leveledLogger_def WithLogr_def UseLogLevel_def UseErrorLevel_def
  someError_def provideTwo_def provideTwoFailed_def privateProvideFailed_def
  providedBuffer_def applyingOptionsFailed_def

subsection \<open>The repository's test table\<close>

text \<open>
  Rows of \<^verbatim>\<open>TestLogrLogger\<close>, each run on a logger fresh from \<^verbatim>\<open>WithLogr\<close>: the
  call the logger receives is the one whose rendering the test expects.
\<close>

lemma test_OnStartExecuting:
  "emitted table_lib defaultLogger (OnStartExecuting ''hook.onStart'' ''bytes.NewBuffer'') =
     [Info 0 ''OnStart hook executing''
        [Str ''callee'', Str ''hook.onStart'', Str ''caller'', Str ''bytes.NewBuffer'']]"
  by (simp add: emitted_eqs sample_defs)

lemma test_OnStartExecuted:
  "emitted table_lib defaultLogger
     (OnStartExecuted ''hook.onStart1'' ''bytes.NewBuffer'' (3 * Millisecond) None) =
     [Info 0 ''OnStart hook executed''
        [Str ''callee'', Str ''hook.onStart1'', Str ''caller'', Str ''bytes.NewBuffer'',
         Str ''runtime'', Str ''3ms'']]"
  by (simp add: emitted_eqs sample_defs table_lib_def table_Duration_String_def)

lemma test_Supplied_Error:
  "emitted table_lib defaultLogger (Supplied ''*bytes.Buffer'' [] someError) =
     [Error 0 someError ''error encountered while applying options''
        [Str ''type'', Str ''*bytes.Buffer'']]"
  by (simp add: emitted_eqs sample_defs)

lemma test_PrivateProvide:
  "emitted table_lib defaultLogger
     (Provided ''bytes.NewBuffer()'' [''*bytes.Buffer''] ''myModule'' None True) =
     [Info 0 ''provided''
        [Str ''constructor'', Str ''bytes.NewBuffer()'', Str ''module'', Str ''myModule'',
         Str ''type'', Str ''*bytes.Buffer'', Str ''private'', Bool True]]"
  by (simp add: emitted_eqs sample_defs)

lemma test_Provide_Error:
  "emitted table_lib defaultLogger (Provided [] [] [] someError False) =
     [Error 0 someError ''error encountered while applying options'' []]"
  by (simp add: emitted_eqs sample_defs)

lemma test_Invoked_Error:
  "emitted table_lib defaultLogger (Invoked ''bytes.NewBuffer()'' [] someError []) =
     [Error 0 someError ''invoke failed''
        [Str ''stack'', Str [], Str ''function'', Str ''bytes.NewBuffer()'']]"
  by (simp add: emitted_eqs sample_defs)

lemma test_Stopping:
  "emitted table_lib defaultLogger (Stopping (os_Signal ''interrupt'')) =
     [Info 0 ''received signal'' [Str ''signal'', Str ''INTERRUPT'']]"
  by code_simp

lemma test_Stopped_Error:
  "emitted table_lib defaultLogger (Stopped someError) =
     [Error 0 someError ''stop failed'' []]"
  by (simp add: emitted_eqs sample_defs)

lemma test_RollingBack_Error:
  "emitted table_lib defaultLogger (RollingBack someError) =
     [Error 0 someError ''start failed, rolling back'' []]"
  by (simp add: emitted_eqs sample_defs)

lemma test_Started:
  "emitted table_lib defaultLogger (Started None) = [Info 0 ''started'' []]"
  by (simp add: emitted_eqs sample_defs)

subsection \<open>How many calls an event makes\<close>

text \<open>
  Claim C1 says that every event makes exactly one call on the logger. It does not: a
  stopped event without a cause makes none, and a provided event with two output types
  makes two.
\<close>

theorem one_call_per_event_counterexample:
  "length (emitted table_lib defaultLogger (Stopped None)) = 0
   \<and> length (emitted table_lib defaultLogger provideTwo) = 2"
  by (simp add: emitted_eqs sample_defs)

text \<open>
  Claim C1, amended: \<^verbatim>\<open>LogEvent\<close> makes exactly one call for a hook executing or
  executed event, a supplied, invoking, stopping, rolling-back, started or
  logger-initialized event; for an invoked, stopped or rolled-back event it makes one
  call when the event carries a cause and none otherwise; for a provided, replaced or
  decorated event with N output types it makes N calls, and one more when the event
  carries a cause; for an event the switch does not match it makes none.
\<close>

theorem LogEvent_call_count:
  "length (emitted lib l (OnStartExecuting fn cn)) = 1
   \<and> length (emitted lib l (OnStartExecuted fn cn rt err)) = 1
   \<and> length (emitted lib l (OnStopExecuting fn cn)) = 1
   \<and> length (emitted lib l (OnStopExecuted fn cn rt err)) = 1
   \<and> length (emitted lib l (Supplied tn m err)) = 1
   \<and> length (emitted lib l (Provided c ts m err p)) = length ts + (if err = None then 0 else 1)
   \<and> length (emitted lib l (Replaced ts m err)) = length ts + (if err = None then 0 else 1)
   \<and> length (emitted lib l (Decorated d m ts err)) = length ts + (if err = None then 0 else 1)
   \<and> length (emitted lib l (Invoking fn m)) = 1
   \<and> length (emitted lib l (Invoked fn m err tr)) = (if err = None then 0 else 1)
   \<and> length (emitted lib l (Stopping sig)) = 1
   \<and> length (emitted lib l (Stopped err)) = (if err = None then 0 else 1)
   \<and> length (emitted lib l (RollingBack startErr)) = 1
   \<and> length (emitted lib l (RolledBack err)) = (if err = None then 0 else 1)
   \<and> length (emitted lib l (Started err)) = 1
   \<and> length (emitted lib l (LoggerInitialized err c)) = 1
   \<and> length (emitted lib l Unrecognized) = 0"
  by (simp add: emitted_eqs)

subsection \<open>The stopped event\<close>

text \<open>
  Claim C2 says that a stopped event without a cause emits one informational call with
  message "started". The branch for the stopped event has no else: without a cause
  nothing is emitted.
\<close>

theorem Stopped_without_cause_counterexample:
  "emitted table_lib defaultLogger (Stopped None) = []"
  by (simp add: emitted_eqs)

text \<open>
  Claim C2, amended: a stopped event without a cause emits no call; a stopped event
  with a cause emits one error call with message "stop failed", the cause as its error
  argument and no fields.
\<close>

theorem Stopped_calls:
  "emitted lib l (Stopped None) = []
   \<and> emitted lib l (Stopped (Some x)) = [Error (errorLevel l) (Some x) ''stop failed'' []]"
  by (simp add: emitted_eqs)

subsection \<open>Provided, replaced, decorated\<close>

text \<open>
  Claim C3: for a provided, replaced or decorated event whose output-type list has N
  entries, \<^verbatim>\<open>LogEvent\<close> emits exactly N informational calls, one per entry (the call
  for an entry carries that entry as its \<^verbatim>\<open>type\<close> field, in the order of the list),
  and exactly one error call if and only if the event carries a cause; the error call
  comes after all the informational ones.
\<close>

theorem per_type_calls_then_failure:
  assumes "e = Provided c ts m err p \<or> e = Replaced ts m err \<or> e = Decorated d m ts err"
  shows "length (filter (\<lambda>k. \<not> passes_cause k) (emitted lib l e)) = length ts
   \<and> map (\<lambda>k. field (Str ''type'') (call_fields k))
        (filter (\<lambda>k. \<not> passes_cause k) (emitted lib l e)) = map (\<lambda>rtype. Some (Str rtype)) ts
   \<and> length (filter passes_cause (emitted lib l e)) = (if err = None then 0 else 1)
   \<and> emitted lib l e =
       filter (\<lambda>k. \<not> passes_cause k) (emitted lib l e) @ filter passes_cause (emitted lib l e)"
  using assms by (auto simp add: emitted_eqs filter_map comp_def)

theorem per_type_calls_then_failure_witness:
  "length (filter (\<lambda>k. \<not> passes_cause k) (emitted table_lib defaultLogger provideTwoFailed))
     = length [''*bytes.Buffer'', ''io.Reader'']
   \<and> map (\<lambda>k. field (Str ''type'') (call_fields k))
        (filter (\<lambda>k. \<not> passes_cause k) (emitted table_lib defaultLogger provideTwoFailed))
     = [Some (Str ''*bytes.Buffer''), Some (Str ''io.Reader'')]
   \<and> length (filter passes_cause (emitted table_lib defaultLogger provideTwoFailed)) = 1
   \<and> emitted table_lib defaultLogger provideTwoFailed =
       filter (\<lambda>k. \<not> passes_cause k) (emitted table_lib defaultLogger provideTwoFailed)
       @ filter passes_cause (emitted table_lib defaultLogger provideTwoFailed)"
proof -
  have h: "provideTwoFailed =
             Provided ''bytes.NewBuffer()'' [''*bytes.Buffer'', ''io.Reader''] ''myModule''
               someError True
           \<or> provideTwoFailed = Replaced [''*bytes.Buffer'', ''io.Reader''] ''myModule'' someError
           \<or> provideTwoFailed =
               Decorated [] ''myModule'' [''*bytes.Buffer'', ''io.Reader''] someError"
    by (simp add: provideTwoFailed_def)
  from per_type_calls_then_failure [OF h, of table_lib defaultLogger]
  show ?thesis by (simp add: someError_def)
qed

subsection \<open>Severity\<close>

text \<open>
  Claim C4 says that, for every pair of configured levels, a call is at
  \<^verbatim>\<open>errorLevel\<close> if and only if it passes a cause. The two levels are independent
  settings and \<^verbatim>\<open>WithLogr\<close> leaves both at 0: on such a logger the informational call
  of a started event is at verbosity 0, which is \<^verbatim>\<open>errorLevel\<close>, and passes no cause.
\<close>

theorem severity_iff_counterexample:
  "emitted table_lib defaultLogger (Started None) = [Info 0 ''started'' []]
   \<and> call_level (Info 0 ''started'' []) = errorLevel defaultLogger
   \<and> \<not> passes_cause (Info 0 ''started'' [])"
  by (simp add: emitted_eqs sample_defs)

text \<open>
  Claim C4, amended: for every event and every pair of configured levels, each call that
  \<^verbatim>\<open>LogEvent\<close> makes is at \<^verbatim>\<open>errorLevel\<close> when it passes a cause (it is a call of
  the \<^verbatim>\<open>Error\<close> operation) and at \<^verbatim>\<open>logLevel\<close> otherwise; whenever the two
  levels differ, a call is at \<^verbatim>\<open>errorLevel\<close> if and only if it passes a cause.
\<close>

theorem severity_selection:
  "(\<forall>k \<in> set (emitted lib l e).
      call_level k = (if passes_cause k then errorLevel l else logLevel l))
   \<and> (logLevel l \<noteq> errorLevel l \<longrightarrow>
        (\<forall>k \<in> set (emitted lib l e). (call_level k = errorLevel l) = passes_cause k))"
  by (cases e) (auto simp add: emitted_eqs)

theorem severity_selection_witness:
  "logLevel leveledLogger \<noteq> errorLevel leveledLogger
   \<and> Info 1 ''started'' [] \<in> set (emitted table_lib leveledLogger (Started None))
   \<and> call_level (Info 1 ''started'' []) = logLevel leveledLogger
   \<and> \<not> passes_cause (Info 1 ''started'' [])
   \<and> call_level (Info 1 ''started'' []) \<noteq> errorLevel leveledLogger"
proof -
  have d: "logLevel leveledLogger \<noteq> errorLevel leveledLogger"
    by (simp add: sample_defs)
  have m: "Info 1 ''started'' [] \<in> set (emitted table_lib leveledLogger (Started None))"
    by (simp add: emitted_eqs sample_defs)
  from severity_selection [of table_lib leveledLogger "Started None"] d m
  have "call_level (Info 1 ''started'' []) = logLevel leveledLogger"
    and "(call_level (Info 1 ''started'' []) = errorLevel leveledLogger)
           = passes_cause (Info 1 ''started'' [])"
    by fastforce+
  with d m show ?thesis by simp
qed

subsection \<open>Optional fields\<close>

text \<open>
  Claim C5 says that for a provided event the field list contains a \<^verbatim>\<open>private\<close> key
  if and only if the event is marked private. The failure call of a provided event
  carries the module field at most: a private provide that fails before any output type
  is known emits that one call only, and its field list has no \<^verbatim>\<open>private\<close> key.
\<close>

theorem private_key_counterexample:
  "Private privateProvideFailed
   \<and> emitted table_lib defaultLogger privateProvideFailed = [applyingOptionsFailed]
   \<and> Str ''private'' \<notin> set (keys (call_fields applyingOptionsFailed))"
  by (simp add: emitted_eqs sample_defs)

text \<open>
  Claim C5, amended: for a supplied, provided, replaced, decorated, invoking or invoked
  event, the field list of every emitted call contains a \<^verbatim>\<open>module\<close> key if and only
  if the event's module name is non-empty, and its value is then the module name; for a
  provided event, the field list of every informational (per-type) call contains a
  \<^verbatim>\<open>private\<close> key if and only if the event is marked private, and its value is then
  \<^verbatim>\<open>true\<close>, while the field list of the error call never contains a \<^verbatim>\<open>private\<close>
  key. A field that is absent has no entry at all.
\<close>

theorem optional_fields:
  "(e = Supplied tn m err \<or> e = Provided c ts m err p \<or> e = Replaced ts m err
      \<or> e = Decorated d m ts err \<or> e = Invoking fn m \<or> e = Invoked fn m err tr \<longrightarrow>
      (\<forall>k \<in> set (emitted lib l e).
         (Str ''module'' \<in> set (keys (call_fields k))) = (m \<noteq> [])
         \<and> field (Str ''module'') (call_fields k) = (if m \<noteq> [] then Some (Str m) else None)))
   \<and> (\<forall>k \<in> set (emitted lib l (Provided c ts m err p)).
         (Str ''private'' \<in> set (keys (call_fields k))) = (p \<and> \<not> passes_cause k)
         \<and> field (Str ''private'') (call_fields k) =
             (if p \<and> \<not> passes_cause k then Some (Bool True) else None))"
  by (auto simp add: emitted_eqs split: if_splits)

theorem optional_fields_witness:
  "providedBuffer \<in> set (emitted table_lib defaultLogger provideTwoFailed)
   \<and> Str ''module'' \<in> set (keys (call_fields providedBuffer))
   \<and> field (Str ''module'') (call_fields providedBuffer) = Some (Str ''myModule'')
   \<and> Str ''private'' \<in> set (keys (call_fields providedBuffer))
   \<and> field (Str ''private'') (call_fields providedBuffer) = Some (Bool True)"
proof -
  have e: "provideTwoFailed =
             Provided ''bytes.NewBuffer()'' [''*bytes.Buffer'', ''io.Reader''] ''myModule''
               someError True"
    by (simp add: provideTwoFailed_def)
  have m: "providedBuffer \<in> set (emitted table_lib defaultLogger provideTwoFailed)"
    by (simp add: emitted_eqs sample_defs)
  have c: "\<not> passes_cause providedBuffer"
    by (simp add: providedBuffer_def)
  from optional_fields [of provideTwoFailed "[]" "''myModule''" someError
      "''bytes.NewBuffer()''" "[''*bytes.Buffer'', ''io.Reader'']" True "[]" "[]" "[]"
      table_lib defaultLogger]
    e m c
  show ?thesis by fastforce
qed

subsection \<open>Single events\<close>

text \<open>
  Claim C6: for a hook-start-executed event without a cause, \<^verbatim>\<open>LogEvent\<close> emits one
  informational call with message "OnStart hook executed" and the fields callee, caller,
  runtime, in that order, the runtime being the duration rendered as a string ("3ms" for
  three milliseconds when the library renders it so); with a cause, it emits one error
  call with message "OnStart hook failed" and the fields callee, caller only.
\<close>

theorem OnStartExecuted_calls:
  "emitted lib l (OnStartExecuted fn cn rt None) =
     [Info (logLevel l) ''OnStart hook executed''
        [Str ''callee'', Str fn, Str ''caller'', Str cn,
         Str ''runtime'', Str (Duration_String lib rt)]]
   \<and> emitted lib l (OnStartExecuted fn cn rt (Some x)) =
     [Error (errorLevel l) (Some x) ''OnStart hook failed''
        [Str ''callee'', Str fn, Str ''caller'', Str cn]]
   \<and> (Duration_String lib (3 * Millisecond) = ''3ms'' \<longrightarrow>
        emitted lib l (OnStartExecuted fn cn (3 * Millisecond) None) =
          [Info (logLevel l) ''OnStart hook executed''
             [Str ''callee'', Str fn, Str ''caller'', Str cn, Str ''runtime'', Str ''3ms'']])"
  by (simp add: emitted_eqs)

theorem OnStartExecuted_calls_witness:
  "Duration_String table_lib (3 * Millisecond) = ''3ms''
   \<and> emitted table_lib defaultLogger
       (OnStartExecuted ''hook.onStart'' ''bytes.NewBuffer'' (3 * Millisecond) None) =
     [Info (logLevel defaultLogger) ''OnStart hook executed''
        [Str ''callee'', Str ''hook.onStart'', Str ''caller'', Str ''bytes.NewBuffer'',
         Str ''runtime'', Str ''3ms'']]"
proof -
  have h: "Duration_String table_lib (3 * Millisecond) = ''3ms''"
    by (simp add: table_lib_def table_Duration_String_def)
  from OnStartExecuted_calls [of table_lib defaultLogger "''hook.onStart''"
      "''bytes.NewBuffer''"] h
  show ?thesis by simp
qed

text \<open>
  Claim C7: for a stopping event, \<^verbatim>\<open>LogEvent\<close> emits exactly one informational call
  with message "received signal" and the single field \<^verbatim>\<open>signal\<close>, whose value is the
  upper-cased string rendering of the event's signal.
\<close>

theorem Stopping_calls:
  "emitted lib l (Stopping sig) =
     [Info (logLevel l) ''received signal''
        [Str ''signal'', Str (ToUpper lib (Signal_String sig))]]"
  by (simp add: emitted_eqs)

text \<open>
  Claim C8: for a rolling-back event, \<^verbatim>\<open>LogEvent\<close> emits exactly one call, at error
  severity, with message "start failed, rolling back" and the event's start error as the
  cause, whatever that error is, nil included.
\<close>

theorem RollingBack_calls:
  "emitted lib l (RollingBack startErr) =
     [Error (errorLevel l) startErr ''start failed, rolling back'' []]
   \<and> emitted lib l (RollingBack None) =
     [Error (errorLevel l) None ''start failed, rolling back'' []]"
  by (simp add: emitted_eqs)

subsection \<open>Frame\<close>

text \<open>
  Claim C9: \<^verbatim>\<open>LogEvent\<close> changes no field of the logger: the logger reference and
  both levels are the same after the call as before, for every event (and so are they
  after the two helpers it logs through). \<^verbatim>\<open>UseLogLevel\<close> sets \<^verbatim>\<open>logLevel\<close> and
  nothing else, \<^verbatim>\<open>UseErrorLevel\<close> sets \<^verbatim>\<open>errorLevel\<close> and nothing else, and neither
  makes a call.
\<close>

theorem receiver_frame:
  "self (LogEvent lib e s) = self s
   \<and> Logger (self (LogEvent lib e s)) = Logger (self s)
   \<and> logLevel (self (LogEvent lib e s)) = logLevel (self s)
   \<and> errorLevel (self (LogEvent lib e s)) = errorLevel (self s)
   \<and> self (logEvent msg kvs s) = self s
   \<and> self (logError err msg kvs s) = self s
   \<and> self (UseLogLevel v s) = (self s)\<lparr>logLevel := v\<rparr>
   \<and> logLevel (self (UseLogLevel v s)) = v
   \<and> errorLevel (self (UseLogLevel v s)) = errorLevel (self s)
   \<and> Logger (self (UseLogLevel v s)) = Logger (self s)
   \<and> sunk (UseLogLevel v s) = sunk s
   \<and> self (UseErrorLevel v s) = (self s)\<lparr>errorLevel := v\<rparr>
   \<and> errorLevel (self (UseErrorLevel v s)) = v
   \<and> logLevel (self (UseErrorLevel v s)) = logLevel (self s)
   \<and> Logger (self (UseErrorLevel v s)) = Logger (self s)
   \<and> sunk (UseErrorLevel v s) = sunk s"
  by (simp add: LogEvent_self logEvent_self logError_self UseLogLevel_def UseErrorLevel_def)

subsection \<open>The minimal implementation against the full one\<close>

text \<open>
  Claim C10: for a hook-start-executing event, the minimal logger and the full logger at
  the levels \<^verbatim>\<open>WithLogr\<close> gives it (both 0) emit the same single call: message
  "OnStart hook executing", fields callee, caller, verbosity 0. For every other event
  the minimal logger emits no call.
\<close>

theorem minimal_logger_agrees:
  "logger_emitted (logger_WithLogr r ()) (OnStartExecuting fn cn) =
     [Info 0 ''OnStart hook executing'' [Str ''callee'', Str fn, Str ''caller'', Str cn]]
   \<and> emitted lib (WithLogr r ()) (OnStartExecuting fn cn) =
     [Info 0 ''OnStart hook executing'' [Str ''callee'', Str fn, Str ''caller'', Str cn]]
   \<and> logger_emitted (logger_WithLogr r ()) (OnStartExecuting fn cn) =
       emitted lib (WithLogr r ()) (OnStartExecuting fn cn)
   \<and> ((\<forall>fn cn. e \<noteq> OnStartExecuting fn cn) \<longrightarrow> logger_emitted lg e = [])"
  by (cases e) (simp_all add: emitted_eqs logger_emitted_def WithLogr_def)

theorem minimal_logger_agrees_witness:
  "logger_emitted (logger_WithLogr 0 ()) (Stopped someError) = []
   \<and> emitted table_lib (WithLogr 0 ()) (Stopped someError) \<noteq> []"
proof -
  have h: "\<forall>fn cn. Stopped someError \<noteq> OnStartExecuting fn cn"
    by simp
  from minimal_logger_agrees [of 0 "[]" "[]" table_lib "Stopped someError"
      "logger_WithLogr 0 ()"] h
  show ?thesis by (simp add: emitted_eqs someError_def)
qed

end
